theory Spec2Isabelle
  imports Complex_Main
begin

section \<open>Interactive ellipse editor (script.js): geometry\<close>

text \<open>
  JavaScript numbers are modelled as \<^typ>\<open>real\<close>: \<open>Math.cos\<close>, \<open>Math.sin\<close> and
  \<open>Math.PI\<close> are \<^const>\<open>cos\<close>, \<^const>\<open>sin\<close> and \<^const>\<open>pi\<close>. Rounding, NaN and
  overflow to an infinity are outside the model; the two places where the source relies
  on a non-finite number (the \<open>Infinity\<close> start values of the bounding-box reduction and a
  division by a zero radius) are written out below.

  The object fields \<open>x\<close> and \<open>y\<close> carry a prefix per object kind (\<open>pt_x\<close>, \<open>box_x\<close>,
  \<open>h_x\<close>, \<open>a_x\<close>), so that \<open>x\<close> and \<open>y\<close> stay usable as variables.
\<close>

subsection \<open>Data\<close>

record point =
  pt_x :: real
  pt_y :: real

record handle =
  h_x :: real
  h_y :: real
  h_role :: string

text \<open>
  The anchor of a drag: \<open>{x, y}\<close> for the centre anchors and for the fallback of
  \<open>getOppositeCornerScreenCoord\<close>, \<open>{x, y, role}\<close> for a corner. A missing \<open>role\<close>
  property reads as \<open>undefined\<close> in the source and is \<^const>\<open>None\<close> here.
\<close>

record anchor =
  a_x :: real
  a_y :: real
  a_role :: "string option"

record ellipse =
  centerX :: real
  centerY :: real
  radiusX :: real
  radiusY :: real
  rotation :: real
  shearX :: real
  shearY :: real
  activeHandle :: "handle option"

record box =
  box_x :: real
  box_y :: real
  box_width :: real
  box_height :: real

subsection \<open>rotatePoint, shearPoint\<close>

definition rotatePoint :: "real \<Rightarrow> real \<Rightarrow> real \<Rightarrow> real \<times> real" where
  "rotatePoint x y angle =
     (let cosA = cos angle; sinA = sin angle
      in (x * cosA - y * sinA, x * sinA + y * cosA))"

definition shearPoint :: "real \<Rightarrow> real \<Rightarrow> real \<Rightarrow> real \<Rightarrow> real \<times> real" where
  "shearPoint x y shx shy = (x + shx * y, y + shy * x)"

subsection \<open>getEllipsePoints\<close>

text \<open>
  One iteration of the loop body of \<open>getEllipsePoints\<close> for the index \<open>i\<close>: the local
  point, shear, rotation, translation. Every call site of the source passes
  \<open>steps = 60\<close>, so the division by \<open>steps\<close> is never a division by zero.
\<close>

definition ellipsePoint :: "ellipse \<Rightarrow> nat \<Rightarrow> nat \<Rightarrow> point" where
  "ellipsePoint e steps i =
     (let t = (2 * pi * real i) / real steps;
          x0 = radiusX e * cos t;
          y0 = radiusY e * sin t;
          (x1, y1) = shearPoint x0 y0 (shearX e) (shearY e);
          (x2, y2) = rotatePoint x1 y1 (rotation e)
      in \<lparr> pt_x = x2 + centerX e, pt_y = y2 + centerY e \<rparr>)"

text \<open>The loop \<open>for (i = 0; i <= steps; i++)\<close> pushes one point per index.\<close>

definition getEllipsePoints :: "ellipse \<Rightarrow> nat \<Rightarrow> point list" where
  "getEllipsePoints e steps = map (ellipsePoint e steps) [0 ..< Suc steps]"

subsection \<open>getEllipseBoundingBox\<close>

text \<open>
  The four accumulators of the reduction start at \<open>Infinity\<close> and \<open>-Infinity\<close>. They are
  values of \<open>bound\<close>; a sample coordinate is a real number. In the source a product of
  very large parameters overflows to an infinity and a sample can then be \<open>NaN\<close>, for which
  neither comparison of the reduction fires. Such samples have no counterpart here: what
  follows speaks of shapes whose samples are numbers.
\<close>

datatype bound = NegInfinity | Finite real | PosInfinity

text \<open>\<open>pt.x < minX\<close> and \<open>pt.x > maxX\<close> for a finite left-hand side.\<close>

fun lessBound :: "real \<Rightarrow> bound \<Rightarrow> bool" where
  "lessBound v NegInfinity = False"
| "lessBound v (Finite m) = (v < m)"
| "lessBound v PosInfinity = True"

fun greaterBound :: "real \<Rightarrow> bound \<Rightarrow> bool" where
  "greaterBound v NegInfinity = True"
| "greaterBound v (Finite m) = (v > m)"
| "greaterBound v PosInfinity = False"

definition minStep :: "bound \<Rightarrow> real \<Rightarrow> bound" where
  "minStep m v = (if lessBound v m then Finite v else m)"

definition maxStep :: "bound \<Rightarrow> real \<Rightarrow> bound" where
  "maxStep m v = (if greaterBound v m then Finite v else m)"

text \<open>The body of the \<open>forEach\<close> callback on \<open>(minX, maxX, minY, maxY)\<close>.\<close>

definition boxStep :: "bound \<times> bound \<times> bound \<times> bound \<Rightarrow> point \<Rightarrow> bound \<times> bound \<times> bound \<times> bound" where
  "boxStep acc pt =
     (case acc of (minX, maxX, minY, maxY) \<Rightarrow>
        (minStep minX (pt_x pt), maxStep maxX (pt_x pt),
         minStep minY (pt_y pt), maxStep maxY (pt_y pt)))"

text \<open>
  Reading an accumulator after the loop. The loop has run over 61 points, so the
  accumulator is finite (lemma \<open>boxAcc_finite\<close> below); the infinite cases are never read
  and have no equation.
\<close>

fun finiteValue :: "bound \<Rightarrow> real" where
  "finiteValue (Finite v) = v"

definition getEllipseBoundingBox :: "ellipse \<Rightarrow> box" where
  "getEllipseBoundingBox e =
     (let pts = getEllipsePoints e 60
      in case foldl boxStep (PosInfinity, NegInfinity, PosInfinity, NegInfinity) pts of
           (minX, maxX, minY, maxY) \<Rightarrow>
             \<lparr> box_x = finiteValue minX,
               box_y = finiteValue minY,
               box_width = finiteValue maxX - finiteValue minX,
               box_height = finiteValue maxY - finiteValue minY \<rparr>)"

subsection \<open>isPointInBox, isPointInEllipse\<close>

definition isPointInBox :: "real \<Rightarrow> real \<Rightarrow> box \<Rightarrow> bool" where
  "isPointInBox mx my b =
     (mx \<ge> box_x b \<and> mx \<le> box_x b + box_width b \<and> my \<ge> box_y b \<and> my \<le> box_y b + box_height b)"

text \<open>
  Lines 135 to 153 of \<open>isPointInEllipse\<close>: the centred point is rotated by \<open>-rotation\<close>
  and multiplied by the inverse shear matrix. \<^const>\<open>None\<close> is the early
  \<open>return false\<close> of the degenerate shear; \<open>1e-10\<close> is \<open>1 / 10 ^ 10\<close>.
\<close>

definition invertRotationShear :: "real \<Rightarrow> real \<Rightarrow> real \<Rightarrow> real \<Rightarrow> real \<Rightarrow> (real \<times> real) option" where
  "invertRotationShear lx0 ly0 rot shx shy =
     (let (lx, ly) = rotatePoint lx0 ly0 (- rot);
          det = 1 - shx * shy
      in if \<bar>det\<bar> < 1 / 10 ^ 10 then None
         else
           (let inv00 = 1 / det;
                inv01 = - shx / det;
                inv10 = - shy / det;
                inv11 = 1 / det;
                lxTemp = lx * inv00 + ly * inv01;
                lyTemp = lx * inv10 + ly * inv11
            in Some (lxTemp, lyTemp)))"

text \<open>
  The last two lines of \<open>isPointInEllipse\<close> divide by the squared radii. A zero divisor
  makes \<open>val\<close> \<open>Infinity\<close> or \<open>NaN\<close> in the source (the dividends are squares), and
  \<open>val <= 1\<close> is then false; HOL's \<open>x / 0 = 0\<close> would say otherwise, so the case is
  written out.
\<close>

definition isPointInEllipse :: "real \<Rightarrow> real \<Rightarrow> ellipse \<Rightarrow> bool" where
  "isPointInEllipse mx my e =
     (let lx = mx - centerX e;
          ly = my - centerY e
      in case invertRotationShear lx ly (rotation e) (shearX e) (shearY e) of
           None \<Rightarrow> False
         | Some (lx', ly') \<Rightarrow>
             if radiusX e * radiusX e = 0 \<or> radiusY e * radiusY e = 0 then False
             else (lx' * lx') / (radiusX e * radiusX e) + (ly' * ly') / (radiusY e * radiusY e) \<le> 1)"

subsection \<open>Handles\<close>

definition getHandlesFromBox :: "box \<Rightarrow> handle list" where
  "getHandlesFromBox b =
     (let x = box_x b; y = box_y b; w = box_width b; h = box_height b;
          midX = x + w / 2;
          midY = y + h / 2
      in [ \<lparr> h_x = x,     h_y = y,     h_role = ''top-left'' \<rparr>,
           \<lparr> h_x = x + w, h_y = y,     h_role = ''top-right'' \<rparr>,
           \<lparr> h_x = x,     h_y = y + h, h_role = ''bottom-left'' \<rparr>,
           \<lparr> h_x = x + w, h_y = y + h, h_role = ''bottom-right'' \<rparr>,
           \<lparr> h_x = midX,  h_y = y,     h_role = ''top-middle'' \<rparr>,
           \<lparr> h_x = midX,  h_y = y + h, h_role = ''bottom-middle'' \<rparr>,
           \<lparr> h_x = x,     h_y = midY,  h_role = ''left-middle'' \<rparr>,
           \<lparr> h_x = x + w, h_y = midY,  h_role = ''right-middle'' \<rparr> ])"

fun findHandleHit :: "handle list \<Rightarrow> real \<Rightarrow> real \<Rightarrow> real \<Rightarrow> handle option" where
  "findHandleHit [] mx my radius = None"
| "findHandleHit (h # hs) mx my radius =
     (let dx = mx - h_x h;
          dy = my - h_y h
      in if dx * dx + dy * dy \<le> radius * radius then Some h
         else findHandleHit hs mx my radius)"

text \<open>\<open>String.prototype.includes\<close>: the argument occurs as a substring.\<close>

fun stringIncludes :: "string \<Rightarrow> string \<Rightarrow> bool" where
  "stringIncludes [] sub = (sub = [])"
| "stringIncludes (c # cs) sub = (take (length sub) (c # cs) = sub \<or> stringIncludes cs sub)"

definition getOppositeCornerScreenCoord :: "box \<Rightarrow> string \<Rightarrow> anchor" where
  "getOppositeCornerScreenCoord b handleRole =
     (let x = box_x b; y = box_y b; w = box_width b; h = box_height b
      in if handleRole = ''top-left'' then
           \<lparr> a_x = x + w, a_y = y + h, a_role = Some ''bottom-right'' \<rparr>
         else if handleRole = ''top-right'' then
           \<lparr> a_x = x, a_y = y + h, a_role = Some ''bottom-left'' \<rparr>
         else if handleRole = ''bottom-left'' then
           \<lparr> a_x = x + w, a_y = y, a_role = Some ''top-right'' \<rparr>
         else if handleRole = ''bottom-right'' then
           \<lparr> a_x = x, a_y = y, a_role = Some ''top-left'' \<rparr>
         else \<lparr> a_x = x + w / 2, a_y = y + h / 2, a_role = None \<rparr>)"

subsection \<open>computeEllipseCenterForBoxTopLeft\<close>

text \<open>
  The result object \<open>{centerX, centerY}\<close> is the pair \<open>(dx, dy)\<close>. A \<open>cornerType\<close> that
  matches no \<open>case\<close> of the \<open>switch\<close> (a mid-side role, or \<open>undefined\<close>) leaves
  \<open>dx = dy = 0\<close>.
\<close>

definition computeEllipseCenterForBoxTopLeft ::
  "real \<Rightarrow> real \<Rightarrow> real \<Rightarrow> real \<Rightarrow> real \<Rightarrow> string option \<Rightarrow> anchor \<Rightarrow> real \<times> real" where
  "computeEllipseCenterForBoxTopLeft rx ry shx shy rot cornerType cornerPoint =
     (let tempEllipse = \<lparr> centerX = 0, centerY = 0, radiusX = rx, radiusY = ry,
                          rotation = rot, shearX = shx, shearY = shy, activeHandle = None \<rparr>;
          b = getEllipseBoundingBox tempEllipse
      in if cornerType = Some ''top-left'' then
           (a_x cornerPoint - box_x b, a_y cornerPoint - box_y b)
         else if cornerType = Some ''top-right'' then
           (a_x cornerPoint - (box_x b + box_width b), a_y cornerPoint - box_y b)
         else if cornerType = Some ''bottom-right'' then
           (a_x cornerPoint - (box_x b + box_width b), a_y cornerPoint - (box_y b + box_height b))
         else if cornerType = Some ''bottom-left'' then
           (a_x cornerPoint - box_x b, a_y cornerPoint - (box_y b + box_height b))
         else (0, 0))"

section \<open>The pointer-event handlers\<close>

subsection \<open>Module state\<close>

datatype mode = ResizeShear | Rotate

record state =
  isDrawing :: bool
  ellipseData :: ellipse
  hasEllipse :: bool
  showBoundingBox :: bool
  editMode :: mode
  isDragging :: bool
  dragHandle :: "handle option"
  lastMousePos :: point
  activeAnchor :: "anchor option"

text \<open>The values of the module-level variables when the script has loaded.\<close>

definition initialState :: state where
  "initialState =
     \<lparr> isDrawing = False,
       ellipseData = \<lparr> centerX = 0, centerY = 0, radiusX = 0, radiusY = 0, rotation = 0,
                       shearX = 0, shearY = 0, activeHandle = None \<rparr>,
       hasEllipse = False,
       showBoundingBox = False,
       editMode = ResizeShear,
       isDragging = False,
       dragHandle = None,
       lastMousePos = \<lparr> pt_x = 0, pt_y = 0 \<rparr>,
       activeAnchor = None \<rparr>"

record mouseEvent =
  offsetX :: real
  offsetY :: real
  button :: int

text \<open>
  A handler either runs to its end or is cut short by a \<open>TypeError\<close> (a property read on
  \<open>null\<close>). Both carry the module state the handler leaves behind: the assignments made
  before the exception stay, and the page goes on handling events.
\<close>

datatype outcome = Done state | TypeError state

fun stateOf :: "outcome \<Rightarrow> state" where
  "stateOf (Done s) = s"
| "stateOf (TypeError s) = s"

subsection \<open>drawAll\<close>

text \<open>
  Drawing on the canvas changes no module variable and is not modelled. What is kept of
  \<open>drawAll\<close> is its control flow: the early return while the shape is being created, and
  the read of \<open>ellipseData.activeHandle.role\<close> under \<open>if (activeAnchor)\<close>, which throws
  when \<open>activeHandle\<close> is \<open>null\<close>.
\<close>

definition drawAll :: "state \<Rightarrow> outcome" where
  "drawAll s =
     (if \<not> hasEllipse s \<and> isDrawing s then Done s
      else if activeAnchor s \<noteq> None \<and> activeHandle (ellipseData s) = None then TypeError s
      else Done s)"

subsection \<open>onMouseDown\<close>

definition centerAnchor :: "ellipse \<Rightarrow> anchor" where
  "centerAnchor ed = \<lparr> a_x = centerX ed, a_y = centerY ed, a_role = None \<rparr>"

definition onMouseDown :: "state \<Rightarrow> mouseEvent \<Rightarrow> outcome" where
  "onMouseDown s0 e =
     (let mx = offsetX e;
          my = offsetY e;
          s = s0 \<lparr> lastMousePos := \<lparr> pt_x = mx, pt_y = my \<rparr> \<rparr>;
          ed = ellipseData s
      in if button e = 2 then Done s
         else if \<not> hasEllipse s then
           (if \<not> isDrawing s then
              drawAll (s \<lparr> ellipseData := ed \<lparr> centerX := mx, centerY := my,
                                                 radiusX := 0, radiusY := 0 \<rparr>,
                           isDrawing := True \<rparr>)
            else
              (let ed' = (if radiusX ed = 0 \<and> radiusY ed = 0
                          then ed \<lparr> radiusX := 10, radiusY := 10 \<rparr> else ed)
               in drawAll (s \<lparr> ellipseData := ed', isDrawing := False, hasEllipse := True,
                               showBoundingBox := True \<rparr>)))
         else if showBoundingBox s then
           (let b = getEllipseBoundingBox ed;
                handles = getHandlesFromBox b
            in case findHandleHit handles mx my 6 of
                 Some hitHandle \<Rightarrow>
                   (let s1 = s \<lparr> isDragging := True, dragHandle := Some hitHandle,
                                  ellipseData := ed \<lparr> activeHandle := Some hitHandle \<rparr> \<rparr>
                    in if editMode s1 = Rotate then
                         Done (s1 \<lparr> activeAnchor := Some (centerAnchor ed) \<rparr>)
                       else if stringIncludes (h_role hitHandle) ''middle'' then
                         Done (s1 \<lparr> activeAnchor := Some (centerAnchor ed) \<rparr>)
                       else
                         Done (s1 \<lparr> activeAnchor :=
                                     Some (getOppositeCornerScreenCoord b (h_role hitHandle)) \<rparr>))
               | None \<Rightarrow>
                   if isPointInBox mx my b then
                     drawAll (s \<lparr> editMode := (if editMode s = ResizeShear then Rotate
                                                 else ResizeShear) \<rparr>)
                   else Done s)
         else
           (if isPointInEllipse mx my ed then
              drawAll (s \<lparr> showBoundingBox := True, editMode := ResizeShear \<rparr>)
            else Done s))"

subsection \<open>onMouseMove\<close>

text \<open>
  The update of \<open>ellipseData\<close> inside \<open>if (hasEllipse && isDragging && dragHandle)\<close>, for
  the pointer displacement \<open>(dx, dy)\<close>. In the corner branch the radii are assigned
  before \<open>activeAnchor.role\<close> is read, so they stay changed when that read throws.
  \<open>boxBefore\<close> and \<open>boxAfter\<close> are computed for logging only.
\<close>

definition dragUpdate :: "state \<Rightarrow> handle \<Rightarrow> real \<Rightarrow> real \<Rightarrow> outcome" where
  "dragUpdate s dh dx dy =
     (let ed = ellipseData s
      in if editMode s = ResizeShear then
           (if stringIncludes (h_role dh) ''middle'' then
              (if h_role dh = ''top-middle'' \<or> h_role dh = ''bottom-middle'' then
                 Done (s \<lparr> ellipseData := ed \<lparr> shearX := shearX ed + dx * (1 / 100) \<rparr> \<rparr>)
               else
                 Done (s \<lparr> ellipseData := ed \<lparr> shearY := shearY ed + dy * (1 / 100) \<rparr> \<rparr>))
            else
              (let signX = (if stringIncludes (h_role dh) ''left'' then - 1 else 1);
                   signY = (if stringIncludes (h_role dh) ''top'' then - 1 else 1);
                   rx0 = radiusX ed + signX * dx;
                   ry0 = radiusY ed + signY * dy;
                   rx = max 5 rx0;
                   ry = max 5 ry0;
                   ed1 = ed \<lparr> radiusX := rx, radiusY := ry \<rparr>
               in case activeAnchor s of
                    None \<Rightarrow> TypeError (s \<lparr> ellipseData := ed1 \<rparr>)
                  | Some a \<Rightarrow>
                      (case computeEllipseCenterForBoxTopLeft rx ry (shearX ed1) (shearY ed1)
                              (rotation ed1) (a_role a) a of
                         (cx, cy) \<Rightarrow>
                           Done (s \<lparr> ellipseData := ed1 \<lparr> centerX := cx, centerY := cy \<rparr> \<rparr>))))
         else
           (let rotationSpeed = 1 / 100
            in Done (s \<lparr> ellipseData := ed \<lparr> rotation := rotation ed + dx * rotationSpeed \<rparr> \<rparr>)))"

definition onMouseMove :: "state \<Rightarrow> mouseEvent \<Rightarrow> outcome" where
  "onMouseMove s e =
     (let mx = offsetX e;
          my = offsetY e;
          ed = ellipseData s
      in if \<not> hasEllipse s \<and> isDrawing s then
           drawAll (s \<lparr> ellipseData := ed \<lparr> radiusX := \<bar>mx - centerX ed\<bar>,
                                              radiusY := \<bar>my - centerY ed\<bar> \<rparr> \<rparr>)
         else
           (case dragHandle s of
              None \<Rightarrow> Done s
            | Some dh \<Rightarrow>
                if hasEllipse s \<and> isDragging s then
                  (let dx = mx - pt_x (lastMousePos s);
                       dy = my - pt_y (lastMousePos s)
                   in case dragUpdate s dh dx dy of
                        TypeError s' \<Rightarrow> TypeError s'
                      | Done s' \<Rightarrow> drawAll (s' \<lparr> lastMousePos := \<lparr> pt_x = mx, pt_y = my \<rparr> \<rparr>))
                else Done s))"

subsection \<open>onMouseUp, onContextMenu\<close>

text \<open>
  \<open>onMouseUp\<close> ignores its event. The box and the handles it computes are only logged.
\<close>

definition onMouseUp :: "state \<Rightarrow> outcome" where
  "onMouseUp s = drawAll (s \<lparr> isDragging := False, dragHandle := None, activeAnchor := None \<rparr>)"

definition onContextMenu :: "state \<Rightarrow> outcome" where
  "onContextMenu s = drawAll (s \<lparr> showBoundingBox := False \<rparr>)"

subsection \<open>Event sequences\<close>

datatype event = MouseDown mouseEvent | MouseMove mouseEvent | MouseUp | ContextMenu

fun handle_event :: "state \<Rightarrow> event \<Rightarrow> state" where
  "handle_event s (MouseDown e) = stateOf (onMouseDown s e)"
| "handle_event s (MouseMove e) = stateOf (onMouseMove s e)"
| "handle_event s MouseUp = stateOf (onMouseUp s)"
| "handle_event s ContextMenu = stateOf (onContextMenu s)"

text \<open>The events are delivered one after the other, each to the state the last one left.\<close>

definition run :: "state \<Rightarrow> event list \<Rightarrow> state" where
  "run s evs = foldl handle_event s evs"

definition moves :: "state \<Rightarrow> mouseEvent list \<Rightarrow> state" where
  "moves s es = run s (map MouseMove es)"

section \<open>Notions used in the statements\<close>

text \<open>
  A corner drag in resize-shear mode: the condition under which \<open>onMouseMove\<close> takes its
  resize branch for the handle \<open>h\<close>.
\<close>

definition cornerDragging :: "handle \<Rightarrow> state \<Rightarrow> bool" where
  "cornerDragging h s =
     (hasEllipse s \<and> isDragging s \<and> dragHandle s = Some h \<and> editMode s = ResizeShear \<and>
      \<not> stringIncludes (h_role h) ''middle'')"



text \<open>
  The scenario of the specification: a click at (100, 100), a move to (150, 130) and a
  second click there create the shape with radii 50 and 30; the next pointer-down, at
  (150, 130), grabs the bottom-right handle; the move to (170, 130) drags it by (20, 0).
\<close>

definition scenarioCreate :: "event list" where
  "scenarioCreate =
     [ MouseDown \<lparr> offsetX = 100, offsetY = 100, button = 0 \<rparr>,
       MouseMove \<lparr> offsetX = 150, offsetY = 130, button = 0 \<rparr>,
       MouseDown \<lparr> offsetX = 150, offsetY = 130, button = 0 \<rparr> ]"

definition scenarioGrab :: mouseEvent where
  "scenarioGrab = \<lparr> offsetX = 150, offsetY = 130, button = 0 \<rparr>"

definition scenarioDrag :: mouseEvent where
  "scenarioDrag = \<lparr> offsetX = 170, offsetY = 130, button = 0 \<rparr>"

text \<open>The state in which the bottom-right handle of the scenario's shape has been grabbed.\<close>

definition scenarioGrabbed :: state where
  "scenarioGrabbed = stateOf (onMouseDown (run initialState scenarioCreate) scenarioGrab)"

text \<open>
  A creation in which the pointer moves by (3, 2) between the two clicks, and one in which
  it does not move.
\<close>

definition smallCreate :: "event list" where
  "smallCreate =
     [ MouseDown \<lparr> offsetX = 100, offsetY = 100, button = 0 \<rparr>,
       MouseMove \<lparr> offsetX = 103, offsetY = 102, button = 0 \<rparr>,
       MouseDown \<lparr> offsetX = 103, offsetY = 102, button = 0 \<rparr> ]"

definition twoClicks :: "event list" where
  "twoClicks =
     [ MouseDown \<lparr> offsetX = 100, offsetY = 100, button = 0 \<rparr>,
       MouseDown \<lparr> offsetX = 100, offsetY = 100, button = 0 \<rparr> ]"

text \<open>What the handlers keep true of the radii, whatever the events.\<close>

definition radiiValid :: "state \<Rightarrow> bool" where
  "radiiValid s =
     (0 \<le> radiusX (ellipseData s) \<and> 0 \<le> radiusY (ellipseData s) \<and>
      (hasEllipse s \<longrightarrow> 0 < radiusX (ellipseData s) \<or> 0 < radiusY (ellipseData s)))"

section \<open>Properties of the sampled bounding box\<close>

lemma foldl_boxStep:
  "foldl boxStep (a, b, c, d) pts =
     (foldl minStep a (map pt_x pts), foldl maxStep b (map pt_x pts),
      foldl minStep c (map pt_y pts), foldl maxStep d (map pt_y pts))"
  by (induction pts arbitrary: a b c d) (simp_all add: boxStep_def)

lemma minStep_Finite: "minStep (Finite m) v = Finite (min m v)"
  by (simp add: minStep_def min_def)

lemma maxStep_Finite: "maxStep (Finite m) v = Finite (max m v)"
  by (simp add: maxStep_def max_def)

lemma Min_insert_min:
  "finite S \<Longrightarrow> Min (insert (min a b) S) = Min (insert a (insert b S))"
  for a b :: real
  by (cases "S = {}") (simp_all add: min.assoc)

lemma Max_insert_max:
  "finite S \<Longrightarrow> Max (insert (max a b) S) = Max (insert a (insert b S))"
  for a b :: real
  by (cases "S = {}") (simp_all add: max.assoc)

lemma foldl_minStep_Finite:
  "foldl minStep (Finite m) vs = Finite (Min (insert m (set vs)))"
proof (induction vs arbitrary: m)
  case Nil
  show ?case by simp
next
  case (Cons v vs)
  show ?case
    by (simp only: foldl_Cons minStep_Finite Cons.IH list.set Min_insert_min [OF finite_set])
qed

lemma foldl_maxStep_Finite:
  "foldl maxStep (Finite m) vs = Finite (Max (insert m (set vs)))"
proof (induction vs arbitrary: m)
  case Nil
  show ?case by simp
next
  case (Cons v vs)
  show ?case
    by (simp only: foldl_Cons maxStep_Finite Cons.IH list.set Max_insert_max [OF finite_set])
qed

lemma foldl_minStep_PosInfinity:
  "vs \<noteq> [] \<Longrightarrow> foldl minStep PosInfinity vs = Finite (Min (set vs))"
  by (cases vs) (simp_all add: minStep_def foldl_minStep_Finite)

lemma foldl_maxStep_NegInfinity:
  "vs \<noteq> [] \<Longrightarrow> foldl maxStep NegInfinity vs = Finite (Max (set vs))"
  by (cases vs) (simp_all add: maxStep_def foldl_maxStep_Finite)

lemma getEllipsePoints_nonempty: "getEllipsePoints e steps \<noteq> []"
  by (simp add: getEllipsePoints_def del: upt_Suc)

text \<open>After the loop all four accumulators are finite.\<close>

lemma boxAcc_finite:
  "foldl boxStep (PosInfinity, NegInfinity, PosInfinity, NegInfinity) (getEllipsePoints e 60) =
     (Finite (Min (pt_x ` set (getEllipsePoints e 60))),
      Finite (Max (pt_x ` set (getEllipsePoints e 60))),
      Finite (Min (pt_y ` set (getEllipsePoints e 60))),
      Finite (Max (pt_y ` set (getEllipsePoints e 60))))"
  by (simp add: foldl_boxStep foldl_minStep_PosInfinity foldl_maxStep_NegInfinity
      getEllipsePoints_nonempty)

lemma getEllipseBoundingBox_MinMax:
  "getEllipseBoundingBox e =
     \<lparr> box_x = Min (pt_x ` set (getEllipsePoints e 60)),
       box_y = Min (pt_y ` set (getEllipsePoints e 60)),
       box_width = Max (pt_x ` set (getEllipsePoints e 60)) - Min (pt_x ` set (getEllipsePoints e 60)),
       box_height = Max (pt_y ` set (getEllipsePoints e 60)) - Min (pt_y ` set (getEllipsePoints e 60)) \<rparr>"
  unfolding getEllipseBoundingBox_def Let_def boxAcc_finite by simp

subsection \<open>An unrotated, unsheared shape\<close>

lemma rotatePoint_zero: "rotatePoint x y 0 = (x, y)"
  by (simp add: rotatePoint_def)

lemma shearPoint_zero: "shearPoint x y 0 0 = (x, y)"
  by (simp add: shearPoint_def)

lemma ellipsePoint_axis:
  "rotation e = 0 \<Longrightarrow> shearX e = 0 \<Longrightarrow> shearY e = 0 \<Longrightarrow>
   ellipsePoint e 60 i = \<lparr> pt_x = centerX e + radiusX e * cos (pi * real i / 30),
                           pt_y = centerY e + radiusY e * sin (pi * real i / 30) \<rparr>"
  by (simp add: ellipsePoint_def rotatePoint_zero shearPoint_zero Let_def)

lemma Min_axis:
  fixes c r :: real
  assumes "0 \<le> r" "k \<le> 60" "f (pi * real k / 30) = - 1" "\<And>t. - 1 \<le> f t"
  shows "Min ((\<lambda>i. c + r * f (pi * real i / 30)) ` {0 ..< 61}) = c - r"
proof (rule Min_eqI)
  show "finite ((\<lambda>i. c + r * f (pi * real i / 30)) ` {0 ..< 61::nat})" by simp
  show "c - r \<le> y" if "y \<in> (\<lambda>i. c + r * f (pi * real i / 30)) ` {0 ..< 61}" for y
  proof -
    from that obtain i where y: "y = c + r * f (pi * real i / 30)" by auto
    have "r * (- 1) \<le> r * f (pi * real i / 30)"
      using assms(1) assms(4) by (intro mult_left_mono) auto
    then show ?thesis by (simp add: y)
  qed
  have "c - r = c + r * f (pi * real k / 30)" by (simp add: assms(3))
  moreover have "k \<in> {0 ..< 61}" using assms(2) by simp
  ultimately show "c - r \<in> (\<lambda>i. c + r * f (pi * real i / 30)) ` {0 ..< 61}" by blast
qed

lemma Max_axis:
  fixes c r :: real
  assumes "0 \<le> r" "k \<le> 60" "f (pi * real k / 30) = 1" "\<And>t. f t \<le> 1"
  shows "Max ((\<lambda>i. c + r * f (pi * real i / 30)) ` {0 ..< 61}) = c + r"
proof (rule Max_eqI)
  show "finite ((\<lambda>i. c + r * f (pi * real i / 30)) ` {0 ..< 61::nat})" by simp
  show "y \<le> c + r" if "y \<in> (\<lambda>i. c + r * f (pi * real i / 30)) ` {0 ..< 61}" for y
  proof -
    from that obtain i where y: "y = c + r * f (pi * real i / 30)" by auto
    have "r * f (pi * real i / 30) \<le> r * 1"
      using assms(1) assms(4) by (intro mult_left_mono) auto
    then show ?thesis by (simp add: y)
  qed
  have "c + r = c + r * f (pi * real k / 30)" by (simp add: assms(3))
  moreover have "k \<in> {0 ..< 61}" using assms(2) by simp
  ultimately show "c + r \<in> (\<lambda>i. c + r * f (pi * real i / 30)) ` {0 ..< 61}" by blast
qed

lemma sin_sample_45: "sin (pi * real (45::nat) / 30) = -1"
proof -
  have "pi * real (45::nat) / 30 = 3 / 2 * pi" by simp
  then show ?thesis by (simp only: sin_3over2_pi)
qed

lemma points_axis:
  assumes "rotation e = 0" "shearX e = 0" "shearY e = 0"
  shows "pt_x ` set (getEllipsePoints e 60) = (\<lambda>i. centerX e + radiusX e * cos (pi * real i / 30)) ` {0 ..< 61}"
    and "pt_y ` set (getEllipsePoints e 60) = (\<lambda>i. centerY e + radiusY e * sin (pi * real i / 30)) ` {0 ..< 61}"
  using assms by (simp_all add: getEllipsePoints_def ellipsePoint_axis image_image del: upt_Suc)

lemma getEllipseBoundingBox_axis:
  assumes "rotation e = 0" "shearX e = 0" "shearY e = 0" "0 \<le> radiusX e" "0 \<le> radiusY e"
  shows "getEllipseBoundingBox e =
     \<lparr> box_x = centerX e - radiusX e, box_y = centerY e - radiusY e,
       box_width = 2 * radiusX e, box_height = 2 * radiusY e \<rparr>"
proof -
  have "Min (pt_x ` set (getEllipsePoints e 60)) = centerX e - radiusX e"
    unfolding points_axis(1) [OF assms(1-3)]
    by (rule Min_axis [where k = 30]) (use assms in \<open>simp_all\<close>)
  moreover have "Max (pt_x ` set (getEllipsePoints e 60)) = centerX e + radiusX e"
    unfolding points_axis(1) [OF assms(1-3)]
    by (rule Max_axis [where k = 0]) (use assms in \<open>simp_all\<close>)
  moreover have "Min (pt_y ` set (getEllipsePoints e 60)) = centerY e - radiusY e"
    unfolding points_axis(2) [OF assms(1-3)]
    by (rule Min_axis [where k = 45]) (use assms sin_sample_45 in \<open>simp_all\<close>)
  moreover have "Max (pt_y ` set (getEllipsePoints e 60)) = centerY e + radiusY e"
    unfolding points_axis(2) [OF assms(1-3)]
    by (rule Max_axis [where k = 15]) (use assms in \<open>simp_all\<close>)
  ultimately show ?thesis
    by (simp add: getEllipseBoundingBox_MinMax)
qed


subsection \<open>Moving the centre moves the box\<close>






text \<open>
  Claim C8: for the shape with centre (100, 100), radii 50 and 30, no rotation and no
  shear, the reduction over the 61 samples gives the box x = 50, y = 70, width = 100,
  height = 60.
\<close>

theorem scenario_bounding_box:
  "length (getEllipsePoints \<lparr> centerX = 100, centerY = 100, radiusX = 50, radiusY = 30,
       rotation = 0, shearX = 0, shearY = 0, activeHandle = ah \<rparr> 60) = 61 \<and>
   getEllipseBoundingBox \<lparr> centerX = 100, centerY = 100, radiusX = 50, radiusY = 30,
       rotation = 0, shearX = 0, shearY = 0, activeHandle = ah \<rparr> =
     \<lparr> box_x = 50, box_y = 70, box_width = 100, box_height = 60 \<rparr>"
  by (simp add: getEllipseBoundingBox_axis getEllipsePoints_def del: upt_Suc)

section \<open>The transform and its inverse\<close>

lemma rotatePoint_inverse:
  "(case rotatePoint x y rot of (x', y') \<Rightarrow> rotatePoint x' y' (- rot)) = (x, y)"
proof -
  have sc: "sin rot * sin rot + cos rot * cos rot = 1"
    using sin_cos_squared_add [of rot] by (simp add: power2_eq_square)
  have "(x * cos rot - y * sin rot) * cos rot + (x * sin rot + y * cos rot) * sin rot = x"
    using sc by algebra
  moreover have "(x * sin rot + y * cos rot) * cos rot - (x * cos rot - y * sin rot) * sin rot = y"
    using sc by algebra
  ultimately show ?thesis
    by (simp add: rotatePoint_def Let_def)
qed

lemma shear_inverse:
  fixes x y shx shy :: real
  assumes "1 - shx * shy \<noteq> 0"
  shows "(x + shx * y) / (1 - shx * shy) - (y + shy * x) * shx / (1 - shx * shy) = x"
    and "(y + shy * x) / (1 - shx * shy) - (x + shx * y) * shy / (1 - shx * shy) = y"
proof -
  let ?d = "1 - shx * shy"
  have "(x + shx * y) - (y + shy * x) * shx = x * ?d" by (simp add: algebra_simps)
  then have "((x + shx * y) - (y + shy * x) * shx) / ?d = x" using assms by simp
  then show "(x + shx * y) / ?d - (y + shy * x) * shx / ?d = x"
    by (simp only: diff_divide_distrib)
  have "(y + shy * x) - (x + shx * y) * shy = y * ?d" by (simp add: algebra_simps)
  then have "((y + shy * x) - (x + shx * y) * shy) / ?d = y" using assms by simp
  then show "(y + shy * x) / ?d - (x + shx * y) * shy / ?d = y"
    by (simp only: diff_divide_distrib)
qed

text \<open>
  Claim C3: for a shear pair with \<open>|1 - shearX * shearY| \<ge> 1e-10\<close>, every rotation and
  every point, shearing, rotating and then inverting as \<open>isPointInEllipse\<close> does
  (rotation by \<open>-rotation\<close>, then the inverse shear matrix) gives the point back.
\<close>

theorem inverse_after_forward:
  assumes "\<bar>1 - shx * shy\<bar> \<ge> 1 / 10 ^ 10"
  shows "(case shearPoint x y shx shy of (x1, y1) \<Rightarrow>
            case rotatePoint x1 y1 rot of (x2, y2) \<Rightarrow>
              invertRotationShear x2 y2 rot shx shy) = Some (x, y)"
proof -
  have det: "1 - shx * shy \<noteq> 0" using assms by auto
  obtain x2 y2 where r: "rotatePoint (x + shx * y) (y + shy * x) rot = (x2, y2)"
    by (cases "rotatePoint (x + shx * y) (y + shy * x) rot")
  have unrot: "rotatePoint x2 y2 (- rot) = (x + shx * y, y + shy * x)"
    using rotatePoint_inverse [where x = "x + shx * y" and y = "y + shy * x" and rot = rot] by (simp add: r)
  show ?thesis
    using assms
    by (simp add: shearPoint_def r invertRotationShear_def unrot Let_def shear_inverse [OF det]
        not_less [symmetric])
qed

theorem inverse_after_forward_witness:
  "\<bar>1 - (1 / 2) * (1 / 4 :: real)\<bar> \<ge> 1 / 10 ^ 10 \<and>
   (case shearPoint 3 5 (1 / 2) (1 / 4) of (x1, y1) \<Rightarrow>
      case rotatePoint x1 y1 0 of (x2, y2) \<Rightarrow>
        invertRotationShear x2 y2 0 (1 / 2) (1 / 4)) = Some (3, 5)"
proof -
  have h: "\<bar>1 - (1 / 2) * (1 / 4 :: real)\<bar> \<ge> 1 / 10 ^ 10" by simp
  show ?thesis using h inverse_after_forward [OF h, where x = 3 and y = 5 and rot = 0] by simp
qed

text \<open>
  Claim C6: a shape whose shear has \<open>|1 - shearX * shearY| < 1e-10\<close> contains no point:
  \<open>isPointInEllipse\<close> returns false, as a value. The inversion is refused exactly when
  that strict comparison with \<open>1e-10\<close> holds.
\<close>

theorem degenerate_shear_is_outside:
  "(invertRotationShear (mx - centerX e) (my - centerY e) (rotation e) (shearX e) (shearY e) = None
      \<longleftrightarrow> \<bar>1 - shearX e * shearY e\<bar> < 1 / 10 ^ 10) \<and>
   (\<bar>1 - shearX e * shearY e\<bar> < 1 / 10 ^ 10 \<longrightarrow> isPointInEllipse mx my e = False)"
  by (simp add: isPointInEllipse_def invertRotationShear_def Let_def split: prod.splits)

theorem degenerate_shear_is_outside_witness:
  "\<bar>1 - shearX \<lparr> centerX = 0, centerY = 0, radiusX = 10, radiusY = 10, rotation = 0,
                   shearX = 1, shearY = 1, activeHandle = None \<rparr>
         * shearY \<lparr> centerX = 0, centerY = 0, radiusX = 10, radiusY = 10, rotation = 0,
                   shearX = 1, shearY = 1, activeHandle = None \<rparr>\<bar> < (1 / 10 ^ 10 :: real) \<and>
   isPointInEllipse 0 0 \<lparr> centerX = 0, centerY = 0, radiusX = 10, radiusY = 10, rotation = 0,
                           shearX = 1, shearY = 1, activeHandle = None \<rparr> = False"
  using degenerate_shear_is_outside
    [where e = "\<lparr> centerX = 0, centerY = 0, radiusX = 10, radiusY = 10, rotation = 0,
                   shearX = 1, shearY = 1, activeHandle = None \<rparr>" and mx = 0 and my = 0]
  by simp


section \<open>The handlers\<close>

lemma stateOf_drawAll: "stateOf (drawAll s) = s"
  by (simp add: drawAll_def)

lemma dragUpdate_corner:
  assumes "editMode s = ResizeShear" "\<not> stringIncludes (h_role h) ''middle''"
  shows "dragUpdate s h dx dy =
     (let ed = ellipseData s;
          rx = max 5 (radiusX ed + (if stringIncludes (h_role h) ''left'' then - 1 else 1) * dx);
          ry = max 5 (radiusY ed + (if stringIncludes (h_role h) ''top'' then - 1 else 1) * dy);
          ed1 = ed \<lparr> radiusX := rx, radiusY := ry \<rparr>
      in case activeAnchor s of
           None \<Rightarrow> TypeError (s \<lparr> ellipseData := ed1 \<rparr>)
         | Some a \<Rightarrow>
             Done (s \<lparr> ellipseData := ed1
                    \<lparr> centerX := fst (computeEllipseCenterForBoxTopLeft rx ry (shearX ed)
                                       (shearY ed) (rotation ed) (a_role a) a),
                      centerY := snd (computeEllipseCenterForBoxTopLeft rx ry (shearX ed)
                                       (shearY ed) (rotation ed) (a_role a) a) \<rparr> \<rparr>))"
  unfolding dragUpdate_def Let_def using assms
  by (simp split: option.split prod.split)


lemma onMouseMove_drag:
  assumes "hasEllipse s" "isDragging s" "dragHandle s = Some h"
  shows "onMouseMove s e =
     (case dragUpdate s h (offsetX e - pt_x (lastMousePos s)) (offsetY e - pt_y (lastMousePos s)) of
        TypeError s' \<Rightarrow> TypeError s'
      | Done s' \<Rightarrow> drawAll (s' \<lparr> lastMousePos := \<lparr> pt_x = offsetX e, pt_y = offsetY e \<rparr> \<rparr>))"
  using assms by (simp add: onMouseMove_def Let_def)

lemma onMouseMove_corner:
  assumes "hasEllipse s" "isDragging s" "dragHandle s = Some h" "editMode s = ResizeShear"
    "\<not> stringIncludes (h_role h) ''middle''"
  shows "stateOf (onMouseMove s e) =
     (let ed = ellipseData s;
          rx = max 5 (radiusX ed + (if stringIncludes (h_role h) ''left'' then - 1 else 1)
                        * (offsetX e - pt_x (lastMousePos s)));
          ry = max 5 (radiusY ed + (if stringIncludes (h_role h) ''top'' then - 1 else 1)
                        * (offsetY e - pt_y (lastMousePos s)));
          ed1 = ed \<lparr> radiusX := rx, radiusY := ry \<rparr>
      in case activeAnchor s of
           None \<Rightarrow> s \<lparr> ellipseData := ed1 \<rparr>
         | Some a \<Rightarrow>
             s \<lparr> ellipseData := ed1
                    \<lparr> centerX := fst (computeEllipseCenterForBoxTopLeft rx ry (shearX ed)
                                       (shearY ed) (rotation ed) (a_role a) a),
                      centerY := snd (computeEllipseCenterForBoxTopLeft rx ry (shearX ed)
                                       (shearY ed) (rotation ed) (a_role a) a) \<rparr>,
                 lastMousePos := \<lparr> pt_x = offsetX e, pt_y = offsetY e \<rparr> \<rparr>)"
  unfolding onMouseMove_drag [OF assms(1-3)] dragUpdate_corner [OF assms(4,5)] Let_def
  by (cases "activeAnchor s") (simp_all add: stateOf_drawAll)


lemma dragUpdate_hidden:
  "dragUpdate (s \<lparr> showBoundingBox := b \<rparr>) h dx dy =
     (case dragUpdate s h dx dy of
        Done s' \<Rightarrow> Done (s' \<lparr> showBoundingBox := b \<rparr>)
      | TypeError s' \<Rightarrow> TypeError (s' \<lparr> showBoundingBox := b \<rparr>))"
  by (simp add: dragUpdate_def Let_def split: option.split prod.split)

lemma drawAll_hidden:
  "drawAll (s \<lparr> showBoundingBox := b \<rparr>) =
     (case drawAll s of
        Done s' \<Rightarrow> Done (s' \<lparr> showBoundingBox := b \<rparr>)
      | TypeError s' \<Rightarrow> TypeError (s' \<lparr> showBoundingBox := b \<rparr>))"
  by (simp add: drawAll_def)


lemma onMouseMove_hidden:
  "onMouseMove (s \<lparr> showBoundingBox := b \<rparr>) e =
     (case onMouseMove s e of
        Done s' \<Rightarrow> Done (s' \<lparr> showBoundingBox := b \<rparr>)
      | TypeError s' \<Rightarrow> TypeError (s' \<lparr> showBoundingBox := b \<rparr>))"
proof (cases "hasEllipse s")
  case False
  then show ?thesis
    by (cases "isDrawing s"; cases "dragHandle s") (simp_all add: onMouseMove_def Let_def drawAll_def)
next
  case True
  show ?thesis
  proof (cases "dragHandle s")
    case None
    with True show ?thesis by (simp add: onMouseMove_def Let_def)
  next
    case (Some h)
    show ?thesis
    proof (cases "isDragging s")
      case False
      with True Some show ?thesis by (simp add: onMouseMove_def Let_def)
    next
      case drag: True
      show ?thesis
        by (cases "dragUpdate s h (offsetX e - pt_x (lastMousePos s))
              (offsetY e - pt_y (lastMousePos s))")
          (simp_all add: onMouseMove_drag True drag Some dragUpdate_hidden drawAll_def)
    qed
  qed
qed

text \<open>
  Claim C10: the context-menu handler sets the box-visibility flag to hidden and changes
  nothing else: the shape, the edit mode, the dragging flag, the dragged handle and the
  anchor stay. A drag goes on with the box hidden: a pointer move does to the hidden
  state what it does to the visible one.
\<close>

theorem onContextMenu_only_hides_box:
  "stateOf (onContextMenu s) = s \<lparr> showBoundingBox := False \<rparr> \<and>
   stateOf (onMouseMove (s \<lparr> showBoundingBox := False \<rparr>) e) =
     (stateOf (onMouseMove s e)) \<lparr> showBoundingBox := False \<rparr>"
  by (cases "onMouseMove s e") (simp_all add: onContextMenu_def stateOf_drawAll onMouseMove_hidden)

text \<open>
  Claim C5, as the code has it: \<open>onMouseUp\<close> clears the dragging flag, the dragged handle
  and the anchor and changes nothing else; in particular the visibility and the shape stay,
  and \<open>ellipseData.activeHandle\<close> keeps its value.
\<close>

theorem onMouseUp_clears_drag:
  "stateOf (onMouseUp s) = s \<lparr> isDragging := False, dragHandle := None, activeAnchor := None \<rparr> \<and>
   activeHandle (ellipseData (stateOf (onMouseUp s))) = activeHandle (ellipseData s)"
  by (simp add: onMouseUp_def stateOf_drawAll)

section \<open>The scenario, evaluated\<close>

lemma run_Nil: "run s [] = s"
  by (simp add: run_def)

lemma run_Cons: "run s (ev # evs) = run (handle_event s ev) evs"
  by (simp add: run_def)

lemma run_append: "run s (evs @ evs') = run (run s evs) evs'"
  by (simp add: run_def)

lemma run_scenarioCreate:
  "run initialState scenarioCreate =
     \<lparr> isDrawing = False,
       ellipseData = \<lparr> centerX = 100, centerY = 100, radiusX = 50, radiusY = 30, rotation = 0,
                       shearX = 0, shearY = 0, activeHandle = None \<rparr>,
       hasEllipse = True,
       showBoundingBox = True,
       editMode = ResizeShear,
       isDragging = False,
       dragHandle = None,
       lastMousePos = \<lparr> pt_x = 150, pt_y = 130 \<rparr>,
       activeAnchor = None \<rparr>"
  by (simp add: scenarioCreate_def run_Cons run_Nil initialState_def onMouseDown_def
      onMouseMove_def drawAll_def Let_def)

lemma scenarioGrabbed_eq:
  "scenarioGrabbed =
     \<lparr> isDrawing = False,
       ellipseData = \<lparr> centerX = 100, centerY = 100, radiusX = 50, radiusY = 30, rotation = 0,
                       shearX = 0, shearY = 0,
                       activeHandle = Some \<lparr> h_x = 150, h_y = 130, h_role = ''bottom-right'' \<rparr> \<rparr>,
       hasEllipse = True,
       showBoundingBox = True,
       editMode = ResizeShear,
       isDragging = True,
       dragHandle = Some \<lparr> h_x = 150, h_y = 130, h_role = ''bottom-right'' \<rparr>,
       lastMousePos = \<lparr> pt_x = 150, pt_y = 130 \<rparr>,
       activeAnchor = Some \<lparr> a_x = 50, a_y = 70, a_role = Some ''top-left'' \<rparr> \<rparr>"
  by (simp add: scenarioGrabbed_def run_scenarioCreate scenarioGrab_def onMouseDown_def Let_def
      getEllipseBoundingBox_axis getHandlesFromBox_def getOppositeCornerScreenCoord_def)

section \<open>Corner drags\<close>

lemma cornerDragging_move:
  assumes "cornerDragging h s"
  shows "cornerDragging h (stateOf (onMouseMove s e))"
    and "activeAnchor (stateOf (onMouseMove s e)) = activeAnchor s"
    and "rotation (ellipseData (stateOf (onMouseMove s e))) = rotation (ellipseData s)"
    and "shearX (ellipseData (stateOf (onMouseMove s e))) = shearX (ellipseData s)"
    and "shearY (ellipseData (stateOf (onMouseMove s e))) = shearY (ellipseData s)"
proof -
  from assms have d: "hasEllipse s" "isDragging s" "dragHandle s = Some h"
    "editMode s = ResizeShear" "\<not> stringIncludes (h_role h) ''middle''"
    by (simp_all add: cornerDragging_def)
  note mv = onMouseMove_corner [OF d, of e]
  show "cornerDragging h (stateOf (onMouseMove s e))"
    unfolding mv Let_def using d by (cases "activeAnchor s") (simp_all add: cornerDragging_def)
  show "activeAnchor (stateOf (onMouseMove s e)) = activeAnchor s"
    unfolding mv Let_def by (cases "activeAnchor s") simp_all
  show "rotation (ellipseData (stateOf (onMouseMove s e))) = rotation (ellipseData s)"
    unfolding mv Let_def by (cases "activeAnchor s") simp_all
  show "shearX (ellipseData (stateOf (onMouseMove s e))) = shearX (ellipseData s)"
    unfolding mv Let_def by (cases "activeAnchor s") simp_all
  show "shearY (ellipseData (stateOf (onMouseMove s e))) = shearY (ellipseData s)"
    unfolding mv Let_def by (cases "activeAnchor s") simp_all
qed

lemma moves_Nil: "moves s [] = s"
  by (simp add: moves_def run_def)

lemma moves_snoc: "moves s (es @ [e]) = stateOf (onMouseMove (moves s es) e)"
  by (simp add: moves_def run_def)

lemma cornerDragging_moves:
  assumes "cornerDragging h s"
  shows "cornerDragging h (moves s es) \<and> activeAnchor (moves s es) = activeAnchor s"
proof (induction es rule: rev_induct)
  case Nil
  show ?case using assms by (simp add: moves_Nil)
next
  case (snoc e es)
  then have d: "cornerDragging h (moves s es)" and a: "activeAnchor (moves s es) = activeAnchor s"
    by simp_all
  show ?case
    by (simp add: moves_snoc cornerDragging_move(1,2) [OF d] a)
qed

text \<open>
  Claim C7: during a corner drag, whatever the radii were and whatever moves came before,
  a move adds \<open>signX * dx\<close> to \<open>radiusX\<close> and \<open>signY * dy\<close> to \<open>radiusY\<close> (the sign is
  \<open>-1\<close> for a role that contains "left", respectively "top", and \<open>+1\<close> otherwise) and
  raises both to at least 5.
\<close>

theorem radius_floor:
  assumes "hasEllipse s" "isDragging s" "dragHandle s = Some h" "editMode s = ResizeShear"
    and "\<not> stringIncludes (h_role h) ''middle''"
  shows "radiusX (ellipseData (stateOf (onMouseMove (moves s es) e))) =
           max 5 (radiusX (ellipseData (moves s es))
                  + (if stringIncludes (h_role h) ''left'' then - 1 else 1)
                    * (offsetX e - pt_x (lastMousePos (moves s es)))) \<and>
         radiusY (ellipseData (stateOf (onMouseMove (moves s es) e))) =
           max 5 (radiusY (ellipseData (moves s es))
                  + (if stringIncludes (h_role h) ''top'' then - 1 else 1)
                    * (offsetY e - pt_y (lastMousePos (moves s es)))) \<and>
         radiusX (ellipseData (stateOf (onMouseMove (moves s es) e))) \<ge> 5 \<and>
         radiusY (ellipseData (stateOf (onMouseMove (moves s es) e))) \<ge> 5"
proof -
  have "cornerDragging h s" using assms by (simp add: cornerDragging_def)
  then have "cornerDragging h (moves s es)" by (simp add: cornerDragging_moves)
  then have d: "hasEllipse (moves s es)" "isDragging (moves s es)"
    "dragHandle (moves s es) = Some h" "editMode (moves s es) = ResizeShear"
    by (simp_all add: cornerDragging_def)
  show ?thesis
    unfolding onMouseMove_corner [OF d assms(5), of e] Let_def
    by (cases "activeAnchor (moves s es)") simp_all
qed

theorem radius_floor_witness:
  "hasEllipse scenarioGrabbed \<and> isDragging scenarioGrabbed \<and>
   dragHandle scenarioGrabbed = Some \<lparr> h_x = 150, h_y = 130, h_role = ''bottom-right'' \<rparr> \<and>
   editMode scenarioGrabbed = ResizeShear \<and>
   \<not> stringIncludes (h_role \<lparr> h_x = 150, h_y = 130, h_role = ''bottom-right'' \<rparr>) ''middle'' \<and>
   radiusX (ellipseData (stateOf (onMouseMove (moves scenarioGrabbed [scenarioDrag])
       \<lparr> offsetX = 0, offsetY = 0, button = 0 \<rparr>))) \<ge> 5 \<and>
   radiusY (ellipseData (stateOf (onMouseMove (moves scenarioGrabbed [scenarioDrag])
       \<lparr> offsetX = 0, offsetY = 0, button = 0 \<rparr>))) \<ge> 5"
proof -
  have h: "hasEllipse scenarioGrabbed" "isDragging scenarioGrabbed"
    "dragHandle scenarioGrabbed = Some \<lparr> h_x = 150, h_y = 130, h_role = ''bottom-right'' \<rparr>"
    "editMode scenarioGrabbed = ResizeShear"
    "\<not> stringIncludes (h_role \<lparr> h_x = 150, h_y = 130, h_role = ''bottom-right'' \<rparr>) ''middle''"
    by (simp_all add: scenarioGrabbed_eq)
  show ?thesis
    using h radius_floor [OF h, of "[scenarioDrag]" "\<lparr> offsetX = 0, offsetY = 0, button = 0 \<rparr>"]
    by simp
qed

section \<open>The anchor of a corner drag\<close>












section \<open>The new centre of a corner resize\<close>






section \<open>Releasing a handle\<close>

text \<open>
  After the scenario's handle is grabbed and released, no drag is in progress and
  \<open>ellipseData.activeHandle\<close> still holds the bottom-right handle.
\<close>

lemma run_scenario_release:
  "run initialState (scenarioCreate @ [MouseDown scenarioGrab, MouseUp]) =
     scenarioGrabbed \<lparr> isDragging := False, dragHandle := None, activeAnchor := None \<rparr>"
  by (simp add: run_append run_Cons run_Nil scenarioGrabbed_def onMouseUp_def stateOf_drawAll)

theorem activeHandle_kept_counterexample:
  "isDragging (run initialState (scenarioCreate @ [MouseDown scenarioGrab])) \<and>
   \<not> isDragging (run initialState (scenarioCreate @ [MouseDown scenarioGrab, MouseUp])) \<and>
   dragHandle (run initialState (scenarioCreate @ [MouseDown scenarioGrab, MouseUp])) = None \<and>
   activeAnchor (run initialState (scenarioCreate @ [MouseDown scenarioGrab, MouseUp])) = None \<and>
   activeHandle (ellipseData (run initialState (scenarioCreate @ [MouseDown scenarioGrab, MouseUp]))) =
     Some \<lparr> h_x = 150, h_y = 130, h_role = ''bottom-right'' \<rparr> \<and>
   activeHandle (ellipseData (run initialState (scenarioCreate @ [MouseDown scenarioGrab, MouseUp])))
     \<noteq> None"
proof -
  have "run initialState (scenarioCreate @ [MouseDown scenarioGrab]) = scenarioGrabbed"
    by (simp add: run_append run_Cons run_Nil scenarioGrabbed_def)
  then show ?thesis
    unfolding run_scenario_release by (simp add: scenarioGrabbed_eq)
qed

section \<open>The radii of a finalized shape\<close>

lemma radiiValid_onMouseDown:
  assumes "radiiValid s"
  shows "radiiValid (stateOf (onMouseDown s e))"
  using assms
  by (auto simp add: onMouseDown_def Let_def stateOf_drawAll radiiValid_def split: option.split)

lemma radiiValid_dragUpdate:
  assumes "radiiValid s"
  shows "radiiValid (stateOf (dragUpdate s h dx dy)) \<and>
         hasEllipse (stateOf (dragUpdate s h dx dy)) = hasEllipse s"
  using assms
  by (simp add: dragUpdate_def Let_def radiiValid_def le_max_iff_disj less_max_iff_disj
      split: option.split prod.split)

lemma radiiValid_onMouseMove:
  assumes "radiiValid s"
  shows "radiiValid (stateOf (onMouseMove s e))"
proof (cases "\<not> hasEllipse s \<and> isDrawing s")
  case True
  then show ?thesis
    by (simp add: onMouseMove_def Let_def stateOf_drawAll radiiValid_def)
next
  case False
  show ?thesis
  proof (cases "dragHandle s")
    case None
    with False assms show ?thesis by (auto simp add: onMouseMove_def Let_def)
  next
    case (Some h)
    let ?u = "dragUpdate s h (offsetX e - pt_x (lastMousePos s)) (offsetY e - pt_y (lastMousePos s))"
    have u: "radiiValid (stateOf ?u)" using assms by (simp add: radiiValid_dragUpdate)
    have "stateOf (onMouseMove s e) = s \<or>
          stateOf (onMouseMove s e) = stateOf ?u \<or>
          stateOf (onMouseMove s e) =
            (stateOf ?u) \<lparr> lastMousePos := \<lparr> pt_x = offsetX e, pt_y = offsetY e \<rparr> \<rparr>"
      using False Some
      by (cases ?u) (auto simp add: onMouseMove_def Let_def stateOf_drawAll)
    with u assms show ?thesis by (auto simp add: radiiValid_def)
  qed
qed

lemma radiiValid_handle_event:
  assumes "radiiValid s"
  shows "radiiValid (handle_event s ev)"
proof (cases ev)
  case (MouseDown e)
  then show ?thesis using assms by (simp add: radiiValid_onMouseDown)
next
  case (MouseMove e)
  then show ?thesis using assms by (simp add: radiiValid_onMouseMove)
next
  case MouseUp
  then show ?thesis using assms by (simp add: onMouseUp_def stateOf_drawAll radiiValid_def)
next
  case ContextMenu
  then show ?thesis using assms by (simp add: onContextMenu_def stateOf_drawAll radiiValid_def)
qed

lemma radiiValid_run: "radiiValid s \<Longrightarrow> radiiValid (run s evs)"
  by (induction evs arbitrary: s) (simp_all add: run_Nil run_Cons radiiValid_handle_event)

lemma radiiValid_initialState: "radiiValid initialState"
  by (simp add: radiiValid_def initialState_def)

text \<open>
  Claim C4, as the code has it: in every state reached from the initial one in which the
  shape is finalized, both radii are at least 0 and one of them is positive. The second
  pointer-down of a creation sets both radii to 10 when both are zero and leaves them as
  the last creation move set them otherwise; it applies no floor of 5.
\<close>

theorem finalized_radii:
  "(hasEllipse (run initialState evs) \<longrightarrow>
      0 \<le> radiusX (ellipseData (run initialState evs)) \<and>
      0 \<le> radiusY (ellipseData (run initialState evs)) \<and>
      (0 < radiusX (ellipseData (run initialState evs)) \<or>
       0 < radiusY (ellipseData (run initialState evs)))) \<and>
   (\<not> hasEllipse s \<and> isDrawing s \<and> button e \<noteq> 2 \<longrightarrow>
      hasEllipse (stateOf (onMouseDown s e)) \<and>
      (if radiusX (ellipseData s) = 0 \<and> radiusY (ellipseData s) = 0
       then radiusX (ellipseData (stateOf (onMouseDown s e))) = 10 \<and>
            radiusY (ellipseData (stateOf (onMouseDown s e))) = 10
       else radiusX (ellipseData (stateOf (onMouseDown s e))) = radiusX (ellipseData s) \<and>
            radiusY (ellipseData (stateOf (onMouseDown s e))) = radiusY (ellipseData s)))"
proof -
  have "radiiValid (run initialState evs)"
    by (rule radiiValid_run [OF radiiValid_initialState])
  then show ?thesis
    by (simp add: radiiValid_def onMouseDown_def Let_def stateOf_drawAll)
qed

text \<open>
  A creation with a pointer move of (3, 2) between the two clicks finalizes a shape with
  radii 3 and 2.
\<close>

lemma run_smallCreate:
  "run initialState smallCreate =
     \<lparr> isDrawing = False,
       ellipseData = \<lparr> centerX = 100, centerY = 100, radiusX = 3, radiusY = 2, rotation = 0,
                       shearX = 0, shearY = 0, activeHandle = None \<rparr>,
       hasEllipse = True,
       showBoundingBox = True,
       editMode = ResizeShear,
       isDragging = False,
       dragHandle = None,
       lastMousePos = \<lparr> pt_x = 103, pt_y = 102 \<rparr>,
       activeAnchor = None \<rparr>"
  by (simp add: smallCreate_def run_Cons run_Nil initialState_def onMouseDown_def
      onMouseMove_def drawAll_def Let_def)

theorem small_shape_counterexample:
  "hasEllipse (run initialState smallCreate) \<and>
   radiusX (ellipseData (run initialState smallCreate)) = 3 \<and>
   radiusY (ellipseData (run initialState smallCreate)) = 2 \<and>
   \<not> (radiusX (ellipseData (run initialState smallCreate)) \<ge> 5 \<and>
      radiusY (ellipseData (run initialState smallCreate)) \<ge> 5)"
  by (simp add: run_smallCreate)

lemma run_firstClick:
  "run initialState [MouseDown \<lparr> offsetX = 100, offsetY = 100, button = 0 \<rparr>] =
     initialState \<lparr> lastMousePos := \<lparr> pt_x = 100, pt_y = 100 \<rparr>,
                    ellipseData := (ellipseData initialState) \<lparr> centerX := 100, centerY := 100 \<rparr>,
                    isDrawing := True \<rparr>"
  by (simp add: run_Cons run_Nil initialState_def onMouseDown_def drawAll_def Let_def)

theorem finalized_radii_witness:
  "hasEllipse (run initialState twoClicks) \<and>
   0 < radiusX (ellipseData (run initialState twoClicks)) \<and>
   \<not> hasEllipse (run initialState [MouseDown \<lparr> offsetX = 100, offsetY = 100, button = 0 \<rparr>]) \<and>
   isDrawing (run initialState [MouseDown \<lparr> offsetX = 100, offsetY = 100, button = 0 \<rparr>]) \<and>
   button \<lparr> offsetX = 100, offsetY = 100, button = 0 \<rparr> \<noteq> 2 \<and>
   radiusX (ellipseData (stateOf (onMouseDown
     (run initialState [MouseDown \<lparr> offsetX = 100, offsetY = 100, button = 0 \<rparr>])
     \<lparr> offsetX = 100, offsetY = 100, button = 0 \<rparr>))) = 10 \<and>
   radiusY (ellipseData (stateOf (onMouseDown
     (run initialState [MouseDown \<lparr> offsetX = 100, offsetY = 100, button = 0 \<rparr>])
     \<lparr> offsetX = 100, offsetY = 100, button = 0 \<rparr>))) = 10"
proof -
  have c: "hasEllipse (run initialState twoClicks)"
    "0 < radiusX (ellipseData (run initialState twoClicks))"
    by (simp_all add: twoClicks_def run_Cons run_Nil initialState_def onMouseDown_def drawAll_def Let_def)
  have h: "\<not> hasEllipse (run initialState [MouseDown \<lparr> offsetX = 100, offsetY = 100, button = 0 \<rparr>])"
    "isDrawing (run initialState [MouseDown \<lparr> offsetX = 100, offsetY = 100, button = 0 \<rparr>])"
    "button \<lparr> offsetX = 100, offsetY = 100, button = 0 \<rparr> \<noteq> 2"
    "radiusX (ellipseData (run initialState [MouseDown \<lparr> offsetX = 100, offsetY = 100, button = 0 \<rparr>])) = 0"
    "radiusY (ellipseData (run initialState [MouseDown \<lparr> offsetX = 100, offsetY = 100, button = 0 \<rparr>])) = 0"
    unfolding run_firstClick by (simp_all add: initialState_def)
  show ?thesis
    using c h finalized_radii [of twoClicks
        "run initialState [MouseDown \<lparr> offsetX = 100, offsetY = 100, button = 0 \<rparr>]"
        "\<lparr> offsetX = 100, offsetY = 100, button = 0 \<rparr>"]
    by simp
qed

end
